theory Spec2Isabelle
  imports Complex_Main
begin

section \<open>Python values: strings, exceptions, number conversion\<close>

text \<open>
  A Python \<open>str\<close> is modelled as a \<open>string\<close>, one \<open>char\<close> per code point; code
  points from 256 on are outside the model. Python floats (timestamps, the datastore's
  average) are modelled as exact rationals, so rounding of the floating-point operations
  is not part of the model. An exception is a value of type \<open>error\<close>; a function that
  may raise returns \<open>error + 'a\<close>, with \<open>Inl\<close> for the raised exception.
\<close>

datatype error =
    ValueError string
  | KeyError string
  | ZeroDivisionError
  | UnboundLocalError string
  | SystemExit int
  | OSError string

text \<open>\<open>str.isspace\<close> on the code points below 256.\<close>

definition is_space :: "char \<Rightarrow> bool" where
  "is_space c \<longleftrightarrow>
     c \<in> set [CHR 0x09, CHR 0x0A, CHR 0x0B, CHR 0x0C, CHR 0x0D, CHR 0x1C, CHR 0x1D,
              CHR 0x1E, CHR 0x1F, CHR 0x20, CHR 0x85, CHR 0xA0]"

text \<open>\<open>s.strip()\<close>: whitespace is removed at both ends.\<close>

definition lstrip :: "string \<Rightarrow> string" where
  "lstrip s = dropWhile is_space s"

definition rstrip :: "string \<Rightarrow> string" where
  "rstrip s = rev (dropWhile is_space (rev s))"

definition strip :: "string \<Rightarrow> string" where
  "strip s = rstrip (lstrip s)"

text \<open>\<open>s.startswith(p)\<close> and \<open>s.endswith(p)\<close>.\<close>

definition startswith :: "string \<Rightarrow> string \<Rightarrow> bool" where
  "startswith s p \<longleftrightarrow> take (length p) s = p"

definition endswith :: "string \<Rightarrow> string \<Rightarrow> bool" where
  "endswith s p \<longleftrightarrow> length p \<le> length s \<and> drop (length s - length p) s = p"

text \<open>\<open>s.lower()\<close> on the ASCII letters; other characters are left as they are.\<close>

definition lower_char :: "char \<Rightarrow> char" where
  "lower_char c =
     (let n = (of_char c :: nat) in if 65 \<le> n \<and> n \<le> 90 then char_of (n + 32) else c)"

definition lower :: "string \<Rightarrow> string" where
  "lower s = map lower_char s"

text \<open>\<open>s.split(',')\<close>: the pieces between the separators, empty pieces kept.\<close>

fun split_acc :: "char \<Rightarrow> string \<Rightarrow> string \<Rightarrow> string list" where
  "split_acc sep cur [] = [rev cur]"
| "split_acc sep cur (c # cs) =
     (if c = sep then rev cur # split_acc sep [] cs else split_acc sep (c # cur) cs)"

definition split :: "string \<Rightarrow> char \<Rightarrow> string list" where
  "split s sep = split_acc sep [] s"

text \<open>\<open>str(n)\<close> for an integer: decimal digits, with a minus sign when negative.\<close>

definition digit_char :: "nat \<Rightarrow> char" where
  "digit_char d = ''0123456789'' ! d"

function str_nat :: "nat \<Rightarrow> string" where
  "str_nat n = (if n < 10 then [digit_char n] else str_nat (n div 10) @ [digit_char (n mod 10)])"
  by pat_completeness auto
termination
  by (relation "measure (\<lambda>n. n)") auto

declare str_nat.simps [simp del]

definition str_int :: "int \<Rightarrow> string" where
  "str_int i = (if i < 0 then CHR ''-'' # str_nat (nat (- i)) else str_nat (nat i))"

text \<open>
  \<open>int(s)\<close> on a string: surrounding whitespace is dropped, then an optional sign, then
  decimal digits, where single underscores may stand between digits. Anything else raises
  \<open>ValueError\<close> (here: \<open>None\<close>).
\<close>

definition is_digit :: "char \<Rightarrow> bool" where
  "is_digit c \<longleftrightarrow> c \<in> set ''0123456789''"

definition digit_val :: "char \<Rightarrow> int" where
  "digit_val c = int (of_char c) - 48"

fun py_digits :: "bool \<Rightarrow> int \<Rightarrow> string \<Rightarrow> int option" where
  "py_digits d acc [] = (if d then Some acc else None)"
| "py_digits d acc (c # cs) =
     (if is_digit c then py_digits True (10 * acc + digit_val c) cs
      else if c = CHR ''_'' \<and> d then py_digits False acc cs
      else None)"

definition int_of_str :: "string \<Rightarrow> int option" where
  "int_of_str s =
     (case strip s of
        [] \<Rightarrow> None
      | c # cs \<Rightarrow>
          if c = CHR ''-'' then map_option uminus (py_digits False 0 cs)
          else if c = CHR ''+'' then py_digits False 0 cs
          else py_digits False 0 (c # cs))"

text \<open>\<open>int(x)\<close> on a float: truncation towards zero.\<close>

definition int_of_float :: "rat \<Rightarrow> int" where
  "int_of_float x = (if 0 \<le> x then \<lfloor>x\<rfloor> else \<lceil>x\<rceil>)"


section \<open>The configuration (config.py)\<close>

text \<open>
  The configuration is a dictionary of sections, each a dictionary of settings. Each
  section is a record whose fields are the keys the program reads or writes; a key that is
  absent is \<open>None\<close>. The YAML file is taken to hold a mapping of sections to mappings with
  values of the types the program expects.
\<close>

record app_section =
  app_name :: "string option"
  app_url :: "string option"
  app_version :: "string option"
  app_project :: "string option"
  app_disable_recursion_limit :: "bool option"
  app_only_allow_from :: "string list option"

record reddit_section =
  reddit_client_id :: "string option"
  reddit_client_secret :: "string option"
  reddit_root :: "string option"
  reddit_agent :: "string option"

record paths_section =
  paths_output :: "string option"

record defaults_section =
  defaults_dateformat :: "string option"

record runtime_section =
  runtime_average :: "int option"

record config =
  app :: "app_section option"
  reddit :: "reddit_section option"
  paths :: "paths_section option"
  defaults :: "defaults_section option"
  runtime :: "runtime_section option"
  docker :: "bool option"

definition empty_app :: app_section where
  "empty_app = \<lparr>app_name = None, app_url = None, app_version = None, app_project = None,
                 app_disable_recursion_limit = None, app_only_allow_from = None\<rparr>"

definition empty_reddit :: reddit_section where
  "empty_reddit = \<lparr>reddit_client_id = None, reddit_client_secret = None,
                    reddit_root = None, reddit_agent = None\<rparr>"

definition empty_paths :: paths_section where
  "empty_paths = \<lparr>paths_output = None\<rparr>"

definition empty_defaults :: defaults_section where
  "empty_defaults = \<lparr>defaults_dateformat = None\<rparr>"

definition empty_runtime :: runtime_section where
  "empty_runtime = \<lparr>runtime_average = None\<rparr>"

definition create_default_config :: config where
  "create_default_config =
     \<lparr>app = Some empty_app, reddit = Some empty_reddit, paths = Some empty_paths,
      defaults = Some empty_defaults, runtime = Some empty_runtime, docker = None\<rparr>"

text \<open>
  The process environment is a map from variable names to values. \<open>environ_truthy\<close> is
  the test \<open>if os.environ.get(k):\<close>, which an unset or an empty variable fails.
\<close>

type_synonym environ = "string \<rightharpoonup> string"

definition environ_truthy :: "environ \<Rightarrow> string \<Rightarrow> string option" where
  "environ_truthy env k = (case env k of None \<Rightarrow> None | Some v \<Rightarrow> if v = [] then None else Some v)"

text \<open>
  Lines 20 to 36: the configuration file. \<open>yml\<close> and \<open>docker_yml\<close> are the parsed contents
  of config.yml and config-docker.yml, \<open>None\<close> when the file does not exist. The result is
  the configuration and the flag \<open>config_found\<close>.
\<close>

definition load_files :: "config option \<Rightarrow> config option \<Rightarrow> config \<times> bool" where
  "load_files yml docker_yml =
     (case yml of
        Some c \<Rightarrow> (c\<lparr>docker := Some False\<rparr>, True)
      | None \<Rightarrow>
         (case docker_yml of
            Some c \<Rightarrow>
              (c\<lparr>docker := Some True,
                 paths := Some (empty_paths\<lparr>paths_output := Some ''output''\<rparr>)\<rparr>, True)
          | None \<Rightarrow> (create_default_config, False)))"

text \<open>\<open>if 'app' not in config: config['app'] = {}\<close>, followed by a store into the section.\<close>

definition set_in_app :: "(app_section \<Rightarrow> app_section) \<Rightarrow> config \<Rightarrow> config" where
  "set_in_app f c = c\<lparr>app := Some (f (case app c of None \<Rightarrow> empty_app | Some a \<Rightarrow> a))\<rparr>"

definition set_in_reddit :: "(reddit_section \<Rightarrow> reddit_section) \<Rightarrow> config \<Rightarrow> config" where
  "set_in_reddit f c =
     c\<lparr>reddit := Some (f (case reddit c of None \<Rightarrow> empty_reddit | Some r \<Rightarrow> r))\<rparr>"

text \<open>Lines 42 to 70: the settings of the application and of Reddit, from the environment.\<close>

definition env_app_reddit :: "environ \<Rightarrow> config \<Rightarrow> config" where
  "env_app_reddit env c0 =
     (let c1 = (case environ_truthy env ''APP_NAME'' of
                  Some v \<Rightarrow> set_in_app (\<lambda>a. a\<lparr>app_name := Some v\<rparr>) c0 | None \<Rightarrow> c0);
          c2 = (case environ_truthy env ''APP_URL'' of
                  Some v \<Rightarrow> set_in_app (\<lambda>a. a\<lparr>app_url := Some v\<rparr>) c1 | None \<Rightarrow> c1);
          c3 = (case environ_truthy env ''REDDIT_CLIENT_ID'' of
                  Some v \<Rightarrow> set_in_reddit (\<lambda>r. r\<lparr>reddit_client_id := Some v\<rparr>) c2
                | None \<Rightarrow> c2);
          c4 = (case environ_truthy env ''REDDIT_CLIENT_SECRET'' of
                  Some v \<Rightarrow> set_in_reddit (\<lambda>r. r\<lparr>reddit_client_secret := Some v\<rparr>) c3
                | None \<Rightarrow> c3)
      in (case environ_truthy env ''REDDIT_ROOT'' of
            Some v \<Rightarrow> set_in_reddit (\<lambda>r. r\<lparr>reddit_root := Some v\<rparr>) c4
          | None \<Rightarrow>
             (case reddit c4 of
                Some r \<Rightarrow>
                  if reddit_root r = None
                  then c4\<lparr>reddit := Some (r\<lparr>reddit_root := Some ''https://www.reddit.com''\<rparr>)\<rparr>
                  else c4
              | None \<Rightarrow> c4)))"

text \<open>Lines 73 to 88: the output path and the date format.\<close>

definition env_paths_defaults :: "environ \<Rightarrow> config \<Rightarrow> config" where
  "env_paths_defaults env c0 =
     (let p0 = (case paths c0 of None \<Rightarrow> empty_paths | Some p \<Rightarrow> p);
          p1 = (case environ_truthy env ''OUTPUT_PATH'' of
                  Some v \<Rightarrow> p0\<lparr>paths_output := Some v\<rparr>
                | None \<Rightarrow> if paths_output p0 = None then p0\<lparr>paths_output := Some ''output''\<rparr>
                          else p0);
          d0 = (case defaults c0 of None \<Rightarrow> empty_defaults | Some d \<Rightarrow> d);
          d1 = (case environ_truthy env ''DATE_FORMAT'' of
                  Some v \<Rightarrow> d0\<lparr>defaults_dateformat := Some v\<rparr>
                | None \<Rightarrow> if defaults_dateformat d0 = None
                          then d0\<lparr>defaults_dateformat := Some ''%a %Y-%m-%d at %H:%M''\<rparr>
                          else d0)
      in c0\<lparr>paths := Some p1, defaults := Some d1\<rparr>)"

text \<open>Lines 91 to 99: the list of the essential settings that are missing.\<close>

definition missing_config :: "config \<Rightarrow> string list" where
  "missing_config c =
     (if (case app c of None \<Rightarrow> True | Some a \<Rightarrow> app_name a = None) then [''app.name''] else []) @
     (if (case app c of None \<Rightarrow> True | Some a \<Rightarrow> app_url a = None) then [''app.url''] else []) @
     (if (case reddit c of None \<Rightarrow> True | Some r \<Rightarrow> reddit_client_id r = None)
      then [''reddit.client-id''] else []) @
     (if (case reddit c of None \<Rightarrow> True | Some r \<Rightarrow> reddit_client_secret r = None)
      then [''reddit.client-secret''] else [])"

text \<open>
  Lines 109 to 116: version, project and user agent. \<open>config['app']\<close> and
  \<open>config['reddit']\<close> are read without a test, so a missing section raises \<open>KeyError\<close>.
\<close>

definition set_standard :: "config \<Rightarrow> error + config" where
  "set_standard c =
     (case app c of
        None \<Rightarrow> Inl (KeyError ''app'')
      | Some a0 \<Rightarrow>
          let a = a0\<lparr>app_version := Some ''1.2.0'',
                     app_project := Some ''https://github.com/Ailothaen/RedditArchiver''\<rparr>;
              agent = (case app_name a of
                         Some n \<Rightarrow> n @ '' v'' @ ''1.2.0'' @ '' (by u/ailothaen)''
                       | None \<Rightarrow> ''RedditArchiver v'' @ ''1.2.0'' @ '' (by u/ailothaen)'')
          in (case reddit c of
                None \<Rightarrow> Inl (KeyError ''reddit'')
              | Some r \<Rightarrow> Inr (c\<lparr>app := Some a, reddit := Some (r\<lparr>reddit_agent := Some agent\<rparr>)\<rparr>)))"

text \<open>
  Lines 118 to 134: the runtime settings. The average is first read from
  AVERAGE_DOWNLOAD_TIME (default \<open>'30'\<close>), which raises \<open>ValueError\<close> when the text is not
  an integer; after the two optional settings of the application it is assigned again.
\<close>

definition set_runtime :: "environ \<Rightarrow> config \<Rightarrow> error + config" where
  "set_runtime env c0 =
     (let r0 = (case runtime c0 of None \<Rightarrow> empty_runtime | Some r \<Rightarrow> r);
          txt = (case env ''AVERAGE_DOWNLOAD_TIME'' of None \<Rightarrow> ''30'' | Some v \<Rightarrow> v)
      in (case int_of_str txt of
            None \<Rightarrow> Inl (ValueError (''invalid literal for int() with base 10: '' @ txt))
          | Some n \<Rightarrow>
             (let c1 = c0\<lparr>runtime := Some (r0\<lparr>runtime_average := Some n\<rparr>)\<rparr>;
                  c2 = (case environ_truthy env ''DISABLE_RECURSION_LIMIT'' of
                          Some v \<Rightarrow>
                            set_in_app
                              (\<lambda>a. a\<lparr>app_disable_recursion_limit := Some (lower v = ''true'')\<rparr>) c1
                        | None \<Rightarrow> c1);
                  c3 = (case environ_truthy env ''ONLY_ALLOW_FROM'' of
                          Some v \<Rightarrow>
                            set_in_app (\<lambda>a. a\<lparr>app_only_allow_from := Some (split v (CHR '',''))\<rparr>) c2
                        | None \<Rightarrow> c2)
              in (case runtime c3 of
                    None \<Rightarrow> Inl (KeyError ''runtime'')
                  | Some r \<Rightarrow> Inr (c3\<lparr>runtime := Some (r\<lparr>runtime_average := Some 30\<rparr>)\<rparr>)))))"

text \<open>
  The module as a whole, up to its last assignment to the configuration (line 134); what
  follows sets up logging and only reads the configuration.
\<close>

definition load_config :: "environ \<Rightarrow> config option \<Rightarrow> config option \<Rightarrow> error + config" where
  "load_config env yml docker_yml =
     (let (c0, config_found) = load_files yml docker_yml;
          c1 = env_paths_defaults env (env_app_reddit env c0)
      in if missing_config c1 \<noteq> [] \<and> \<not> config_found then Inl (SystemExit 1)
         else (case set_standard c1 of
                 Inl e \<Rightarrow> Inl e
               | Inr c2 \<Rightarrow> set_runtime env c2))"


section \<open>The redirect URI of the OAuth flow (controllers.py)\<close>

text \<open>
  The loop \<open>while app_url.endswith('/'): app_url = app_url[:-1]\<close>. It ends because
  each turn shortens the string.
\<close>

function strip_slashes :: "string \<Rightarrow> string" where
  "strip_slashes s = (if endswith s ''/'' then strip_slashes (butlast s) else s)"
  by pat_completeness auto
termination
  by (relation "measure length") (auto simp: endswith_def)

declare strip_slashes.simps [simp del]

definition get_oauth_redirect_uri :: "config \<Rightarrow> error + string" where
  "get_oauth_redirect_uri cfg =
     (case app cfg of
        None \<Rightarrow> Inl (ValueError ''Missing app.url configuration'')
      | Some a \<Rightarrow>
         (case app_url a of
            None \<Rightarrow> Inl (ValueError ''Missing app.url configuration'')
          | Some raw \<Rightarrow>
             (let url = strip raw in
              if \<not> startswith url ''https://'' then
                (if startswith url ''http://''
                 then Inr (strip_slashes (''https://'' @ drop 7 url) @ ''/token'')
                 else Inl (ValueError (''Invalid URL: '' @ url @ '' - must use HTTPS protocol'')))
              else Inr (strip_slashes url @ ''/token''))))"

text \<open>
  The rule in the words of the specification, for comparison: take the configured base
  URL, reject a scheme that is neither https nor http, rewrite http to https, strip the
  trailing slashes, append \<open>/token\<close>.
\<close>

definition spec_redirect_uri :: "string \<Rightarrow> error + string" where
  "spec_redirect_uri base =
     (if startswith base ''https://'' then Inr (strip_slashes base @ ''/token'')
      else if startswith base ''http://''
           then Inr (strip_slashes (''https://'' @ drop 7 base) @ ''/token'')
      else Inl (ValueError (''Invalid URL: '' @ base @ '' - must use HTTPS protocol'')))"

text \<open>A configuration whose only setting is the base URL of the application.\<close>

definition config_with_url :: "string \<Rightarrow> config" where
  "config_with_url u =
     \<lparr>app = Some (empty_app\<lparr>app_url := Some u\<rparr>), reddit = None, paths = None,
      defaults = None, runtime = None, docker = None\<rparr>"


section \<open>Jobs, sessions and the world around a request\<close>

text \<open>
  A job as the datastore returns it (\<open>models.read_job\<close>). The fields and which of them
  may be null follow the data model of the specification.
\<close>

record job =
  job_submission_id :: string
  job_requester :: string
  job_status :: string
  job_failure_reason :: "string option"
  job_started_at :: rat
  job_nb_replies :: "int option"
  job_filename :: "string option"

text \<open>A thread created by \<open>threading.Thread(target=downloader.main, args=...)\<close> and started.\<close>

record worker =
  worker_name :: string
  worker_daemon :: bool
  worker_args :: "string \<times> string option \<times> string"

text \<open>
  What a request can change: the job table and the token table of the datastore, the
  threads that were started, and the calls made to the token endpoint of the identity
  provider (redirect URI and code of each call).
\<close>

record world =
  jobs :: "string \<rightharpoonup> job"
  tokens :: "string option \<rightharpoonup> string"
  workers :: "worker list"
  exchanges :: "(string \<times> string) list"

text \<open>
  Modelled from the spec: \<open>models.create_job\<close> is not among the sources. It writes a new
  job record for the identifier, with status \<open>ongoing\<close> and \<open>started_at = now\<close>.
\<close>

definition create_job :: "rat \<Rightarrow> string \<Rightarrow> string \<Rightarrow> string \<Rightarrow> world \<Rightarrow> world" where
  "create_job now job_id submission_id cookie w =
     w\<lparr>jobs := (jobs w)(job_id \<mapsto>
          \<lparr>job_submission_id = submission_id, job_requester = cookie,
           job_status = ''ongoing'', job_failure_reason = None, job_started_at = now,
           job_nb_replies = None, job_filename = None\<rparr>)\<rparr>"

text \<open>
  Modelled from the spec: \<open>models.create_token\<close> is not among the sources. It persists the
  refresh token against the session (the cookie).
\<close>

definition create_token :: "string option \<Rightarrow> string \<Rightarrow> world \<Rightarrow> world" where
  "create_token cookie refresh_token w = w\<lparr>tokens := (tokens w)(cookie \<mapsto> refresh_token)\<rparr>"

text \<open>
  \<open>controllers.request\<close>. The parameters are what the function reads from its
  surroundings: \<open>extract_id\<close> is \<open>utils.extract_id\<close> (not among the sources; it yields
  \<open>None\<close> when no identifier can be extracted), \<open>now\<close> the clock, \<open>job_id\<close> the token drawn
  by \<open>secrets.token_urlsafe(16)\<close>, \<open>submission\<close> the form field, \<open>g_cookie\<close> and \<open>g_token\<close>
  the session and its refresh token.
\<close>

definition request ::
  "(string option \<Rightarrow> string option) \<Rightarrow> rat \<Rightarrow> string \<Rightarrow> string option \<Rightarrow> string \<Rightarrow>
   string option \<Rightarrow> world \<Rightarrow> (error + string) \<times> world" where
  "request extract_id now job_id submission g_cookie g_token w =
     (case extract_id submission of
        None \<Rightarrow> (Inl (ValueError ''BAD_URL''), w)
      | Some submission_id \<Rightarrow>
         (let w1 = create_job now job_id submission_id g_cookie w;
              thread = \<lparr>worker_name = job_id, worker_daemon = True,
                        worker_args = (submission_id, g_token, job_id)\<rparr>
          in (Inr job_id, w1\<lparr>workers := workers w1 @ [thread]\<rparr>)))"


section \<open>The OAuth callback (app.py, controllers.py)\<close>

text \<open>\<open>config['app'][key]\<close>: a missing section or key raises \<open>KeyError\<close>.\<close>

definition config_app :: "config \<Rightarrow> (app_section \<Rightarrow> 'a option) \<Rightarrow> string \<Rightarrow> error + 'a" where
  "config_app cfg field key =
     (case app cfg of
        None \<Rightarrow> Inl (KeyError ''app'')
      | Some a \<Rightarrow> (case field a of None \<Rightarrow> Inl (KeyError key) | Some v \<Rightarrow> Inr v))"

text \<open>
  \<open>controllers.get_refresh_token\<close>. \<open>idp\<close> is the answer of the identity provider to
  \<open>reddit.auth.authorize(code)\<close> for a redirect URI and a code; the call is recorded in
  \<open>exchanges\<close>. Every exception is logged and raised again. (Lines 132 and 133 of the
  source repeat the end of the call \<open>praw.Reddit(...)\<close>; they are left out.)
\<close>

definition get_refresh_token ::
  "config \<Rightarrow> (string \<Rightarrow> string \<Rightarrow> error + string) \<Rightarrow> string option \<Rightarrow> world \<Rightarrow>
   (error + string) \<times> world" where
  "get_refresh_token cfg idp code w =
     (case get_oauth_redirect_uri cfg of
        Inl e \<Rightarrow> (Inl e, w)
      | Inr redirect_uri \<Rightarrow>
         (case config_app cfg app_version ''version'' of
            Inl e \<Rightarrow> (Inl e, w)
          | Inr version \<Rightarrow>
             (if (case reddit cfg of
                    None \<Rightarrow> True
                  | Some r \<Rightarrow> reddit_client_id r = None \<or> reddit_client_secret r = None)
              then (Inl (ValueError ''Missing Reddit API credentials''), w)
              else (case code of
                      None \<Rightarrow> (Inl (ValueError ''No code parameter received from Reddit''), w)
                    | Some c \<Rightarrow>
                        if c = [] then (Inl (ValueError ''No code parameter received from Reddit''), w)
                        else (idp redirect_uri c,
                              w\<lparr>exchanges := exchanges w @ [(redirect_uri, c)]\<rparr>)))))"

text \<open>What a route returns: a body with a status code, or a redirection.\<close>

datatype response = Body string int | Redirect string int

text \<open>
  The route \<open>/token\<close>. \<open>state\<close> and \<open>code\<close> are the query parameters, \<open>current_cookie\<close>
  the cookie \<open>redditarchive_id\<close> of the request (\<open>None\<close> when absent). The logging before
  the comparison reads \<open>config['app']['url']\<close> (line 96), which raises \<open>KeyError\<close> when the
  setting is missing. Any exception of the exchange is turned into a 400.
\<close>

definition token ::
  "config \<Rightarrow> (string \<Rightarrow> string \<Rightarrow> error + string) \<Rightarrow> string option \<Rightarrow> string option \<Rightarrow>
   string option \<Rightarrow> world \<Rightarrow> (error + response) \<times> world" where
  "token cfg idp state code current_cookie w =
     (case config_app cfg app_url ''url'' of
        Inl e \<Rightarrow> (Inl e, w)
      | Inr u \<Rightarrow>
         if state \<noteq> current_cookie
         then (Inr (Body ''Authentication failed: state parameter does not match cookie.'' 400), w)
         else (case get_refresh_token cfg idp code w of
                 (Inl e, w1) \<Rightarrow>
                   (Inr (Body ''Reddit did not recognize the code given. This should not happen.'' 400),
                    w1)
               | (Inr refresh_token, w1) \<Rightarrow>
                   (Inr (Redirect ''/'' 303), create_token state refresh_token w1)))"


section \<open>Status and remaining time (controllers.py)\<close>

text \<open>
  \<open>calculate_estimated_time\<close>, with the reading of the clock as the parameter \<open>now\<close>.
  \<open>nb_replies\<close> and \<open>average\<close> are integers, \<open>nb_replies/average\<close> is the true division,
  which raises \<open>ZeroDivisionError\<close> for a zero average.
\<close>

definition calculate_estimated_time ::
  "rat \<Rightarrow> rat \<Rightarrow> int option \<Rightarrow> int \<Rightarrow> error + string option" where
  "calculate_estimated_time now start_time nb_replies average =
     (case nb_replies of
        None \<Rightarrow> Inr None
      | Some n \<Rightarrow>
         (let elapsed = now - start_time in
          if average = 0 then Inl ZeroDivisionError
          else
            (let estimated_total = of_int n / of_int average;
                 estimated_remaining = int_of_float (estimated_total - elapsed)
             in if estimated_remaining < 0 then
                  Inr (Some ''It seems that the retrieval is taking a bit more time than expected. Please stand by...'')
                else if estimated_remaining < 10 then
                  Inr (Some ''Estimated remaining time: less than 10 seconds'')
                else if estimated_remaining < 60 then
                  Inr (Some (''Estimated remaining time: '' @ str_int estimated_remaining @ '' seconds''))
                else
                  (let m = estimated_remaining div 60; s = estimated_remaining mod 60
                   in Inr (Some (''Estimated remaining time: '' @ str_int m @ '' minutes, ''
                                 @ str_int s @ '' seconds''))))))"

text \<open>
  The quantity that the specification calls \<open>remaining\<close>, before the conversion to an
  integer: \<open>nbReplies / throughput - (now - startedAt)\<close>.
\<close>

definition exact_remaining :: "rat \<Rightarrow> rat \<Rightarrow> int \<Rightarrow> int \<Rightarrow> rat" where
  "exact_remaining now start_time n average = of_int n / of_int average - (now - start_time)"

text \<open>
  \<open>error_message\<close>: the table from failure reasons to messages. Three of the messages
  contain \<open>config['app']['project']\<close>.
\<close>

definition error_message :: "config \<Rightarrow> string option \<Rightarrow> error + string option" where
  \<open>error_message cfg reason =
     (if reason = Some ''SUBMISSION_NOT_FOUND'' then
        Inr (Some ''The submission could not be found. Please check if the submission (still) exists.'')
      else if reason = Some ''BAD_AUTHENTICATION'' then
        (case config_app cfg app_project ''project'' of
           Inl e \<Rightarrow> Inl e
         | Inr project \<Rightarrow>
             Inr (Some (''It looks like your Reddit account does no longer allow Reddit Archiver to read Reddit on its behalf. Please try to allow it again by clicking here. If it still does not work, please <a href="'' @ project @ ''" target="_blank">open an issue on the GitHub</a>.'')))
      else if reason = Some ''BAD_URL'' then
        Inr (Some ''The link you provided is not a valid Reddit submission. Please check it and submit it again.'')
      else if reason = Some ''BAD_PERMISSIONS'' then
        (case config_app cfg app_project ''project'' of
           Inl e \<Rightarrow> Inl e
         | Inr project \<Rightarrow>
             Inr (Some (''Your request cannot be completed because of an issue in the server. Please contact the administrator and tell them to look in the error logs. If you are the administrator and cannot resolve the problem, please <a href="'' @ project @ ''" target="_blank">open an issue on the GitHub</a>.'')))
      else if reason = Some ''UNKNOWN'' then
        (case config_app cfg app_project ''project'' of
           Inl e \<Rightarrow> Inl e
         | Inr project \<Rightarrow>
             Inr (Some (''Your request cannot be completed because of an issue in the server. Please contact the administrator and tell them to look in the error logs. If you are the administrator and cannot resolve the problem, please <a href="'' @ project @ ''" target="_blank">open an issue on the GitHub</a>.'')))
      else Inr None)\<close>

text \<open>
  The table of \<open>error_message\<close> as data: the failure reasons it knows, each with its
  message.
\<close>

definition error_message_table :: "string \<Rightarrow> (string \<times> string) list" where
  \<open>error_message_table project =
     [(''SUBMISSION_NOT_FOUND'',
       ''The submission could not be found. Please check if the submission (still) exists.''),
      (''BAD_AUTHENTICATION'',
       ''It looks like your Reddit account does no longer allow Reddit Archiver to read Reddit on its behalf. Please try to allow it again by clicking here. If it still does not work, please <a href="'' @ project @ ''" target="_blank">open an issue on the GitHub</a>.''),
      (''BAD_URL'',
       ''The link you provided is not a valid Reddit submission. Please check it and submit it again.''),
      (''BAD_PERMISSIONS'',
       ''Your request cannot be completed because of an issue in the server. Please contact the administrator and tell them to look in the error logs. If you are the administrator and cannot resolve the problem, please <a href="'' @ project @ ''" target="_blank">open an issue on the GitHub</a>.''),
      (''UNKNOWN'',
       ''Your request cannot be completed because of an issue in the server. Please contact the administrator and tell them to look in the error logs. If you are the administrator and cannot resolve the problem, please <a href="'' @ project @ ''" target="_blank">open an issue on the GitHub</a>.'')]\<close>

text \<open>\<open>config['runtime']['average']\<close>.\<close>

definition config_average :: "config \<Rightarrow> error + int" where
  "config_average cfg =
     (case runtime cfg of
        None \<Rightarrow> Inl (KeyError ''runtime'')
      | Some r \<Rightarrow> (case runtime_average r of None \<Rightarrow> Inl (KeyError ''average'') | Some v \<Rightarrow> Inr v))"

text \<open>
  The payload is the dictionary handed to \<open>json.dumps\<close>: keys in the order of the source,
  \<open>None\<close> as \<open>JNull\<close>. The text that \<open>json.dumps\<close> makes of it is not modelled.
\<close>

datatype json = JNull | JString string

definition json_of :: "string option \<Rightarrow> json" where
  "json_of v = (case v of None \<Rightarrow> JNull | Some s \<Rightarrow> JString s)"

text \<open>
  \<open>status\<close>, on the job that \<open>models.read_job\<close> returned. A status outside the four
  values leaves the local variable unassigned, and the \<open>return\<close> raises.
\<close>

definition status :: "config \<Rightarrow> rat \<Rightarrow> job \<Rightarrow> error + int \<times> (string \<times> json) list" where
  "status cfg now job =
     (case error_message cfg (job_failure_reason job) of
        Inl e \<Rightarrow> Inl e
      | Inr msg \<Rightarrow>
         (case config_average cfg of
            Inl e \<Rightarrow> Inl e
          | Inr average \<Rightarrow>
             (case calculate_estimated_time now (job_started_at job) (job_nb_replies job) average of
                Inl e \<Rightarrow> Inl e
              | Inr eta \<Rightarrow>
                 (let data = [(''status'', JString (job_status job)),
                              (''error_message'', json_of msg), (''eta'', json_of eta)]
                  in if job_status job = ''ongoing'' then Inr (409, data)
                     else if job_status job = ''failure'' then Inr (404, data)
                     else if job_status job = ''success'' then Inr (200, data)
                     else if job_status job = ''notfound'' then Inr (404, data)
                     else Inl (UnboundLocalError ''status'')))))"


section \<open>Maintenance tasks (controllers.py)\<close>

text \<open>
  The output directory: its entries in the order in which \<open>os.listdir\<close> reports them,
  each with its last-modified time and with whether \<open>os.remove\<close> succeeds on it.
  Names are distinct in a directory.
\<close>

record file_entry =
  file_mtime :: rat
  file_removable :: bool

type_synonym output_dir = "(string \<times> file_entry) list"

definition listdir :: "output_dir \<Rightarrow> string list" where
  "listdir fs = map fst fs"

definition getmtime :: "output_dir \<Rightarrow> string \<Rightarrow> error + rat" where
  "getmtime fs f = (case map_of fs f of None \<Rightarrow> Inl (OSError f) | Some e \<Rightarrow> Inr (file_mtime e))"

definition remove_file :: "output_dir \<Rightarrow> string \<Rightarrow> error + output_dir" where
  "remove_file fs f =
     (case map_of fs f of
        None \<Rightarrow> Inl (OSError f)
      | Some e \<Rightarrow> if file_removable e then Inr (filter (\<lambda>p. fst p \<noteq> f) fs) else Inl (OSError f))"

text \<open>
  The loop of \<open>cleanup_downloads\<close> over the listed names. Nothing catches an exception
  of \<open>os.path.getmtime\<close> or \<open>os.remove\<close>: it ends the loop and leaves the function, with
  the directory as it is at that moment.
\<close>

fun cleanup_loop :: "rat \<Rightarrow> string list \<Rightarrow> output_dir \<Rightarrow> (error + unit) \<times> output_dir" where
  "cleanup_loop now [] fs = (Inr (), fs)"
| "cleanup_loop now (file # files) fs =
     (case getmtime fs file of
        Inl e \<Rightarrow> (Inl e, fs)
      | Inr mtime \<Rightarrow>
          if now - mtime > 86400 then
            (case remove_file fs file of
               Inl e \<Rightarrow> (Inl e, fs)
             | Inr fs' \<Rightarrow> cleanup_loop now files fs')
          else cleanup_loop now files fs)"

definition cleanup_downloads :: "rat \<Rightarrow> output_dir \<Rightarrow> (error + unit) \<times> output_dir" where
  "cleanup_downloads now fs = cleanup_loop now (listdir fs) fs"

text \<open>
  \<open>calculate_average_eta\<close>. \<open>average\<close> is the answer of
  \<open>models.calculate_average_eta\<close> (not among the sources): a float, or \<open>None\<close> when there
  is no history.
\<close>

definition calculate_average_eta :: "rat option \<Rightarrow> config \<Rightarrow> error + config" where
  "calculate_average_eta average cfg =
     (case runtime cfg of
        None \<Rightarrow> Inl (KeyError ''runtime'')
      | Some r \<Rightarrow>
         (case average of
            None \<Rightarrow> Inr (cfg\<lparr>runtime := Some (r\<lparr>runtime_average := Some 30\<rparr>)\<rparr>)
          | Some a \<Rightarrow> Inr (cfg\<lparr>runtime := Some (r\<lparr>runtime_average := Some (int_of_float a)\<rparr>)\<rparr>)))"


section \<open>Example inputs\<close>

text \<open>Concrete inputs at which the theorems below are instantiated.\<close>

definition example_environ :: environ where
  "example_environ =
     [''APP_NAME'' \<mapsto> ''RA'', ''APP_URL'' \<mapsto> ''https://example.com'',
      ''REDDIT_CLIENT_ID'' \<mapsto> ''id'', ''REDDIT_CLIENT_SECRET'' \<mapsto> ''secret'',
      ''AVERAGE_DOWNLOAD_TIME'' \<mapsto> ''45'']"

definition example_config :: config where
  "example_config =
     \<lparr>app = Some \<lparr>app_name = Some ''RA'', app_url = Some ''https://example.com'',
                  app_version = Some ''1.2.0'',
                  app_project = Some ''https://github.com/Ailothaen/RedditArchiver'',
                  app_disable_recursion_limit = None, app_only_allow_from = None\<rparr>,
      reddit = Some \<lparr>reddit_client_id = Some ''id'', reddit_client_secret = Some ''secret'',
                     reddit_root = Some ''https://www.reddit.com'',
                     reddit_agent = Some ''RA v1.2.0 (by u/ailothaen)''\<rparr>,
      paths = Some \<lparr>paths_output = Some ''output''\<rparr>,
      defaults = Some \<lparr>defaults_dateformat = Some ''%a %Y-%m-%d at %H:%M''\<rparr>,
      runtime = Some \<lparr>runtime_average = Some 30\<rparr>, docker = None\<rparr>"

definition example_world :: world where
  "example_world = \<lparr>jobs = Map.empty, tokens = Map.empty, workers = [], exchanges = []\<rparr>"

definition example_extract_id :: "string option \<Rightarrow> string option" where
  "example_extract_id s = (if s = Some ''abc123'' then Some ''abc123'' else None)"

definition example_idp :: "string \<Rightarrow> string \<Rightarrow> error + string" where
  "example_idp redirect_uri code = (if code = ''good-code'' then Inr ''refresh-1'' else Inl (OSError ''invalid_grant''))"

definition example_job :: job where
  "example_job =
     \<lparr>job_submission_id = ''abc123'', job_requester = ''cookie-1'', job_status = ''ongoing'',
      job_failure_reason = None, job_started_at = 1000, job_nb_replies = Some 50,
      job_filename = None\<rparr>"


text \<open>
  Two output directories at the time 100000: in the first the files are 86401, 86399 and
  86400 seconds old; in the second all files are older than a day and \<open>a.html\<close> cannot
  be removed.
\<close>

definition example_dir :: output_dir where
  "example_dir =
     [(''a.html'', \<lparr>file_mtime = 13599, file_removable = True\<rparr>),
      (''b.html'', \<lparr>file_mtime = 13601, file_removable = True\<rparr>),
      (''c.html'', \<lparr>file_mtime = 13600, file_removable = True\<rparr>)]"

definition example_failing_dir :: output_dir where
  "example_failing_dir =
     [(''c.html'', \<lparr>file_mtime = 10, file_removable = True\<rparr>),
      (''a.html'', \<lparr>file_mtime = 0, file_removable = False\<rparr>),
      (''b.html'', \<lparr>file_mtime = 0, file_removable = True\<rparr>)]"


text \<open>
  The example configuration with the throughput scalar at zero, a finished job with a
  known number of replies, and a failed job.
\<close>

definition example_zero_config :: config where
  "example_zero_config = example_config\<lparr>runtime := Some \<lparr>runtime_average = Some 0\<rparr>\<rparr>"

definition example_finished_job :: job where
  "example_finished_job =
     \<lparr>job_submission_id = ''abc123'', job_requester = ''cookie-1'', job_status = ''success'',
      job_failure_reason = None, job_started_at = 1000, job_nb_replies = Some 120,
      job_filename = Some ''abc123.html''\<rparr>"

definition example_failed_job :: job where
  "example_failed_job =
     \<lparr>job_submission_id = ''abc123'', job_requester = ''cookie-1'', job_status = ''failure'',
      job_failure_reason = Some ''SUBMISSION_NOT_FOUND'', job_started_at = 1000,
      job_nb_replies = None, job_filename = None\<rparr>"


section \<open>Properties\<close>

subsection \<open>Loading the configuration\<close>

lemma set_runtime_average:
  "set_runtime env c = Inr c' \<Longrightarrow> \<exists>r. runtime c' = Some r \<and> runtime_average r = Some 30"
  by (auto simp: set_runtime_def Let_def split: option.splits)

text \<open>
  C10. When the loading of the configuration reaches its end, the throughput scalar
  \<open>config['runtime']['average']\<close> is 30, whatever the environment (AVERAGE_DOWNLOAD_TIME
  included) and whatever the configuration files hold: the assignment of line 134
  overwrites the value read from the environment on line 121.
\<close>

theorem load_config_average_30:
  "load_config env yml docker_yml = Inr c \<Longrightarrow>
     \<exists>r. runtime c = Some r \<and> runtime_average r = Some 30"
  by (auto simp: load_config_def Let_def split: prod.splits if_splits sum.splits
           dest: set_runtime_average)

lemma int_of_str_45: "int_of_str ''45'' = Some 45"
  by (simp add: int_of_str_def strip_def lstrip_def rstrip_def is_space_def is_digit_def
      digit_val_def)

lemma load_example: "load_config example_environ None None = Inr example_config"
  by (simp add: load_config_def load_files_def example_environ_def create_default_config_def
      env_paths_defaults_def env_app_reddit_def environ_truthy_def set_in_app_def
      set_in_reddit_def missing_config_def set_standard_def set_runtime_def int_of_str_45
      Let_def empty_app_def empty_reddit_def empty_paths_def empty_defaults_def
      empty_runtime_def example_config_def)

theorem load_config_average_30_witness:
  "example_environ ''AVERAGE_DOWNLOAD_TIME'' = Some ''45'' \<and>
   load_config example_environ None None = Inr example_config \<and>
   (\<exists>r. runtime example_config = Some r \<and> runtime_average r = Some 30)"
  using load_config_average_30 [OF load_example] load_example
  by (simp add: example_environ_def)


text \<open>
  The variable AVERAGE_DOWNLOAD_TIME has no effect on the configuration that is loaded:
  two environments that differ in it alone, and with which the loading reaches its end,
  give the same configuration.
\<close>

lemma environ_truthy_other:
  "k \<noteq> k' \<Longrightarrow> environ_truthy (env(k := v)) k' = environ_truthy env k'"
  by (simp add: environ_truthy_def)

lemma set_runtime_ignores_average_env:
  assumes "set_runtime (env(''AVERAGE_DOWNLOAD_TIME'' := v)) c = Inr c1"
      and "set_runtime env c = Inr c2"
  shows "c1 = c2"
proof -
  have "int_of_str (case v of None \<Rightarrow> ''30'' | Some t \<Rightarrow> t) \<noteq> None"
  proof
    assume "int_of_str (case v of None \<Rightarrow> ''30'' | Some t \<Rightarrow> t) = None"
    with assms(1) show False by (simp add: set_runtime_def Let_def)
  qed
  then obtain n1 where n1: "int_of_str (case v of None \<Rightarrow> ''30'' | Some t \<Rightarrow> t) = Some n1"
    by blast
  have "int_of_str (case env ''AVERAGE_DOWNLOAD_TIME'' of None \<Rightarrow> ''30'' | Some t \<Rightarrow> t) \<noteq> None"
  proof
    assume "int_of_str (case env ''AVERAGE_DOWNLOAD_TIME'' of None \<Rightarrow> ''30'' | Some t \<Rightarrow> t) = None"
    with assms(2) show False by (simp add: set_runtime_def Let_def)
  qed
  then obtain n2 where
    n2: "int_of_str (case env ''AVERAGE_DOWNLOAD_TIME'' of None \<Rightarrow> ''30'' | Some t \<Rightarrow> t) = Some n2"
    by blast
  show ?thesis
    using assms
    by (cases "environ_truthy env ''DISABLE_RECURSION_LIMIT''";
        cases "environ_truthy env ''ONLY_ALLOW_FROM''")
       (simp_all add: set_runtime_def n1 n2 environ_truthy_other set_in_app_def Let_def)
qed

lemma load_config_ignores_average_env:
  assumes "load_config (env(''AVERAGE_DOWNLOAD_TIME'' := v)) yml docker_yml = Inr c1"
      and "load_config env yml docker_yml = Inr c2"
  shows "c1 = c2"
proof -
  have a: "env_app_reddit (env(''AVERAGE_DOWNLOAD_TIME'' := v)) = env_app_reddit env"
    by (rule ext) (simp add: env_app_reddit_def environ_truthy_other)
  have b: "env_paths_defaults (env(''AVERAGE_DOWNLOAD_TIME'' := v)) = env_paths_defaults env"
    by (rule ext) (simp add: env_paths_defaults_def environ_truthy_other)
  from assms show ?thesis
    unfolding load_config_def a b
    by (auto simp: Let_def split: prod.splits if_splits sum.splits
             dest: set_runtime_ignores_average_env)
qed


subsection \<open>Creating a job\<close>

text \<open>
  C3. When no identifier can be extracted from the submission (\<open>extract_id\<close> yields
  \<open>None\<close>), \<open>request\<close> raises \<open>ValueError("BAD_URL")\<close> and the world is the one it
  started from: no job record is written and no worker is started.
\<close>

theorem request_invalid_input:
  "extract_id submission = None \<Longrightarrow>
     request extract_id now job_id submission g_cookie g_token w =
       (Inl (ValueError ''BAD_URL''), w)"
  by (simp add: request_def)

theorem request_invalid_input_witness:
  "example_extract_id (Some ''https://example.org/'') = None \<and>
   request example_extract_id 1000 ''job-1'' (Some ''https://example.org/'') ''cookie-1''
     (Some ''refresh-1'') example_world = (Inl (ValueError ''BAD_URL''), example_world)"
proof -
  have h: "example_extract_id (Some ''https://example.org/'') = None"
    by (simp add: example_extract_id_def)
  from request_invalid_input
         [of example_extract_id "Some ''https://example.org/''" 1000 "''job-1''" "''cookie-1''"
             "Some ''refresh-1''" example_world] h
  show ?thesis by simp
qed

text \<open>
  On a valid submission the job is written and one daemon thread is started with the
  arguments (submission identifier, refresh token, job identifier).
\<close>

lemma request_valid_input:
  "extract_id submission = Some sid \<Longrightarrow>
     request extract_id now job_id submission g_cookie g_token w =
       (Inr job_id,
        (create_job now job_id sid g_cookie w)
          \<lparr>workers := workers w @
             [\<lparr>worker_name = job_id, worker_daemon = True,
               worker_args = (sid, g_token, job_id)\<rparr>]\<rparr>)"
  by (simp add: request_def create_job_def Let_def)


subsection \<open>The OAuth callback\<close>

text \<open>
  C2. A callback whose \<open>state\<close> differs from the cookie of the request leaves the world
  as it was: the token endpoint of the identity provider is not called and no refresh
  token is stored. When the configuration holds \<open>app.url\<close> (which the logging of the route
  reads first), the answer is the body "Authentication failed: state parameter does not
  match cookie." with status 400.
\<close>

theorem token_state_mismatch:
  assumes "state \<noteq> current_cookie"
  shows "snd (token cfg idp state code current_cookie w) = w \<and>
         (\<forall>a u. app cfg = Some a \<and> app_url a = Some u \<longrightarrow>
            fst (token cfg idp state code current_cookie w) =
              Inr (Body ''Authentication failed: state parameter does not match cookie.'' 400))"
  using assms by (auto simp: token_def config_app_def split: option.splits)

theorem token_state_mismatch_witness:
  "Some ''cookie-2'' \<noteq> Some ''cookie-1'' \<and>
   app example_config \<noteq> None \<and>
   token example_config example_idp (Some ''cookie-2'') (Some ''good-code'') (Some ''cookie-1'')
     example_world =
     (Inr (Body ''Authentication failed: state parameter does not match cookie.'' 400),
      example_world)"
proof -
  have h: "Some ''cookie-2'' \<noteq> Some ''cookie-1''" by simp
  from token_state_mismatch
         [OF h, of example_config example_idp "Some ''good-code''" example_world]
  show ?thesis
    by (simp add: example_config_def prod_eq_iff)
qed

text \<open>
  For comparison, the same request with a matching \<open>state\<close>: the code is exchanged and the
  refresh token is stored.
\<close>

lemma token_state_match:
  "token example_config example_idp (Some ''cookie-1'') (Some ''good-code'') (Some ''cookie-1'')
     example_world =
   (Inr (Redirect ''/'' 303),
    example_world\<lparr>tokens := [Some ''cookie-1'' \<mapsto> ''refresh-1''],
                  exchanges := [(''https://example.com/token'', ''good-code'')]\<rparr>)"
  by (simp add: token_def config_app_def example_config_def get_refresh_token_def
      get_oauth_redirect_uri_def strip_def lstrip_def rstrip_def is_space_def startswith_def
      strip_slashes.simps endswith_def example_idp_def create_token_def example_world_def)


subsection \<open>Recalibration of the throughput\<close>

text \<open>
  Without history the scalar is set to 30.
\<close>

lemma recalibration_no_history:
  "runtime cfg = Some r \<Longrightarrow>
     calculate_average_eta None cfg =
       Inr (cfg\<lparr>runtime := Some (r\<lparr>runtime_average := Some 30\<rparr>)\<rparr>)"
  by (simp add: calculate_average_eta_def)

text \<open>
  The recalibration always leaves an integer in the scalar; the integer is zero exactly
  when the datastore reports an average strictly between \<open>-1\<close> and 1.
\<close>

lemma int_of_float_zero_iff: "int_of_float a = 0 \<longleftrightarrow> - 1 < a \<and> a < 1"
  by (auto simp: int_of_float_def floor_eq_iff ceiling_eq_iff)

lemma recalibration_never_null:
  "calculate_average_eta average cfg = Inr cfg' \<Longrightarrow> \<exists>n. config_average cfg' = Inr n"
  by (auto simp: calculate_average_eta_def config_average_def split: option.splits)

lemma recalibration_zero_iff:
  assumes "calculate_average_eta average cfg = Inr cfg'"
  shows "config_average cfg' = Inr 0 \<longleftrightarrow> (\<exists>a. average = Some a \<and> - 1 < a \<and> a < 1)"
  using assms
  by (auto simp: calculate_average_eta_def config_average_def int_of_float_zero_iff
           split: option.splits)

text \<open>
  C6. The specification has the recalibration never set the scalar to zero. With a
  datastore average of 0.5 the recalibration stores \<open>int(0.5) = 0\<close>, and the next status request
  for a job whose number of replies is known raises \<open>ZeroDivisionError\<close>.
\<close>

theorem recalibration_sets_zero:
  "calculate_average_eta (Some (1/2)) example_config =
     Inr (example_config\<lparr>runtime := Some \<lparr>runtime_average = Some 0\<rparr>\<rparr>) \<and>
   status (example_config\<lparr>runtime := Some \<lparr>runtime_average = Some 0\<rparr>\<rparr>) 1010 example_job =
     Inl ZeroDivisionError"
  by (simp add: calculate_average_eta_def example_config_def int_of_float_def status_def
      error_message_def example_job_def config_average_def calculate_estimated_time_def
      floor_eq_iff)


subsection \<open>The estimate of the remaining time\<close>

lemma int_of_float_negative: "int_of_float x < 0 \<longleftrightarrow> x \<le> - 1"
  by (auto simp: int_of_float_def floor_less_iff ceiling_less_iff)

lemma int_of_float_less_pos:
  assumes "0 < z"
  shows "int_of_float x < z \<longleftrightarrow> x < of_int z"
proof (cases "0 \<le> x")
  case True
  then show ?thesis by (simp add: int_of_float_def floor_less_iff)
next
  case False
  from assms have "(1::rat) \<le> of_int z" by simp
  with False show ?thesis by (simp add: int_of_float_def ceiling_less_iff)
qed

lemma int_of_float_less_10: "int_of_float x < 10 \<longleftrightarrow> x < 10"
  using int_of_float_less_pos [of 10 x] by simp

lemma int_of_float_less_60: "int_of_float x < 60 \<longleftrightarrow> x < 60"
  using int_of_float_less_pos [of 60 x] by simp

text \<open>
  C1, as the code has it. With a nonzero throughput and a known number of replies the
  message is chosen by the remaining time truncated towards zero,
  \<open>k = int(nbReplies / throughput - (now - startedAt))\<close>: "longer than expected" when the
  remaining time is at most \<open>-1\<close>, "less than 10 seconds" when it lies strictly between
  \<open>-1\<close> and 10, "\<open>k\<close> seconds" from 10 up to 60, and "\<open>k div 60\<close> minutes,
  \<open>k mod 60\<close> seconds" from 60 on. With an unknown number of replies the result is
  \<open>None\<close>.
\<close>

theorem calculate_estimated_time_truncated:
  assumes "average \<noteq> 0"
  shows "calculate_estimated_time now start_time None average = Inr None \<and>
         calculate_estimated_time now start_time (Some n) average =
           (let r = exact_remaining now start_time n average; k = int_of_float r in
            Inr (Some
              (if r \<le> - 1 then
                 ''It seems that the retrieval is taking a bit more time than expected. Please stand by...''
               else if r < 10 then ''Estimated remaining time: less than 10 seconds''
               else if r < 60 then ''Estimated remaining time: '' @ str_int k @ '' seconds''
               else ''Estimated remaining time: '' @ str_int (k div 60) @ '' minutes, ''
                    @ str_int (k mod 60) @ '' seconds'')))"
  using assms
  by (simp add: calculate_estimated_time_def exact_remaining_def Let_def
      int_of_float_negative int_of_float_less_10 int_of_float_less_60)

lemma str_int_1: "str_int 1 = ''1''"
  by (simp add: str_int_def str_nat.simps digit_char_def)

lemma str_int_40: "str_int 40 = ''40''"
  by (simp add: str_int_def str_nat.simps digit_char_def)

theorem calculate_estimated_time_truncated_witness:
  "(10::int) \<noteq> 0 \<and>
   calculate_estimated_time 0 0 (Some 1000) 10 =
     Inr (Some ''Estimated remaining time: 1 minutes, 40 seconds'')"
  using calculate_estimated_time_truncated [of 10 0 0 1000]
  by (simp add: exact_remaining_def int_of_float_def str_int_1 str_int_40)

text \<open>
  The specification selects "longer than expected" for every negative remaining time.
  One second after the start of a job with one reply and throughput 30 the remaining time
  is \<open>1/30 - 1 < 0\<close>, and the message is "less than 10 seconds".
\<close>

theorem calculate_estimated_time_counterexample:
  "exact_remaining 1 0 1 30 < 0 \<and>
   calculate_estimated_time 1 0 (Some 1) 30 =
     Inr (Some ''Estimated remaining time: less than 10 seconds'')"
  by (simp add: exact_remaining_def calculate_estimated_time_def int_of_float_def
      ceiling_eq_iff ceiling_less_iff)

text \<open>The other examples of the specification.\<close>

lemma calculate_estimated_time_examples:
  "calculate_estimated_time 5 0 (Some 100) 10 =
     Inr (Some ''Estimated remaining time: less than 10 seconds'')"
  "calculate_estimated_time 20 0 (Some 10) 10 =
     Inr (Some ''It seems that the retrieval is taking a bit more time than expected. Please stand by...'')"
  by (simp_all add: calculate_estimated_time_def int_of_float_def floor_less_iff
      ceiling_less_iff)


subsection \<open>The redirect URI\<close>

lemma endswith_slash: "endswith s ''/'' \<longleftrightarrow> s \<noteq> [] \<and> last s = CHR ''/''"
proof (cases s rule: rev_cases)
  case Nil
  then show ?thesis by (simp add: endswith_def)
next
  case (snoc ys y)
  then show ?thesis by (simp add: endswith_def)
qed

lemma strip_slashes_Nil: "strip_slashes [] = []"
  by (subst strip_slashes.simps) (simp add: endswith_slash)

lemma strip_slashes_snoc:
  "strip_slashes (ys @ [y]) = (if y = CHR ''/'' then strip_slashes ys else ys @ [y])"
  by (subst strip_slashes.simps) (simp add: endswith_slash)

lemma strip_slashes_dropWhile:
  "strip_slashes s = rev (dropWhile (\<lambda>c. c = CHR ''/'') (rev s))"
  by (induction s rule: rev_induct) (simp_all add: strip_slashes_Nil strip_slashes_snoc)

lemma strip_slashes_append_slashes:
  "strip_slashes (s @ replicate n (CHR ''/'')) = strip_slashes s"
proof (induction n)
  case 0
  then show ?case by simp
next
  case (Suc n)
  have "s @ replicate (Suc n) (CHR ''/'') = (s @ replicate n (CHR ''/'')) @ [CHR ''/'']"
    by (simp add: replicate_append_same)
  then have "strip_slashes (s @ replicate (Suc n) (CHR ''/''))
             = strip_slashes (s @ replicate n (CHR ''/''))"
    by (simp only: strip_slashes_snoc) simp
  with Suc show ?case by simp
qed

lemma rstrip_no_space: "s \<noteq> [] \<Longrightarrow> \<not> is_space (last s) \<Longrightarrow> rstrip s = s"
  by (cases s rule: rev_cases) (simp_all add: rstrip_def)

lemma slash_not_space: "\<not> is_space (CHR ''/'')"
  by (simp add: is_space_def)

lemma strip_append_slashes:
  assumes "raw \<noteq> []" and "\<not> is_space (last raw)"
  shows "strip (raw @ replicate n (CHR ''/'')) = strip raw @ replicate n (CHR ''/'')"
proof -
  from assms(1) have m: "last raw \<in> set raw" by simp
  have l: "lstrip (raw @ replicate n (CHR ''/'')) = lstrip raw @ replicate n (CHR ''/'')"
    unfolding lstrip_def using m assms(2) by (rule dropWhile_append1)
  from m assms(2) have ne: "dropWhile is_space raw \<noteq> []"
    by auto
  have la: "last (dropWhile is_space raw) = last raw"
    using ne last_appendR [of "dropWhile is_space raw" "takeWhile is_space raw"] by simp
  have r1: "rstrip (lstrip raw) = lstrip raw"
    unfolding lstrip_def using ne la assms(2) by (simp add: rstrip_no_space)
  have r2: "rstrip (lstrip raw @ replicate n (CHR ''/'')) = lstrip raw @ replicate n (CHR ''/'')"
  proof (cases n)
    case 0
    with r1 show ?thesis by simp
  next
    case (Suc k)
    have "lstrip raw @ replicate (Suc k) (CHR ''/'') \<noteq> []" by simp
    moreover have "\<not> is_space (last (lstrip raw @ replicate (Suc k) (CHR ''/'')))"
      by (simp add: slash_not_space)
    ultimately show ?thesis unfolding Suc by (rule rstrip_no_space)
  qed
  show ?thesis by (simp add: strip_def l r1 r2)
qed

lemma startswith_append: "startswith s p \<Longrightarrow> startswith (s @ t) p"
proof -
  assume h: "startswith s p"
  then have "length (take (length p) s) = length p" by (simp only: startswith_def)
  then have "length p \<le> length s" by simp
  with h show ?thesis by (simp add: startswith_def)
qed


lemma startswith_take:
  assumes "startswith s p" and "k \<le> length p"
  shows "take k s = take k p"
proof -
  from assms(2) have "take k (take (length p) s) = take k s" by (simp add: min_def)
  with assms(1) show ?thesis by (simp add: startswith_def)
qed

lemma spec_redirect_uri_append_slashes:
  assumes "spec_redirect_uri t = Inr r"
  shows "spec_redirect_uri (t @ replicate n (CHR ''/'')) = Inr r"
proof (cases "startswith t ''https://''")
  case True
  with assms startswith_append [OF True] show ?thesis
    by (simp add: spec_redirect_uri_def strip_slashes_append_slashes)
next
  case False
  with assms have h: "startswith t ''http://''"
    by (simp add: spec_redirect_uri_def split: if_splits)
  then have "length (take (length ''http://'') t) = length ''http://''"
    by (simp only: startswith_def)
  then have len: "7 \<le> length t" by simp
  have nh: "\<not> startswith (t @ replicate n (CHR ''/'')) ''https://''"
  proof
    assume "startswith (t @ replicate n (CHR ''/'')) ''https://''"
    then have "take 7 (t @ replicate n (CHR ''/'')) = take 7 ''https://''"
      by (rule startswith_take) simp
    with len have "take 7 t = ''https:/''" by simp
    moreover from h have "take 7 t = take 7 ''http://''"
      by (rule startswith_take) simp
    ultimately show False by simp
  qed
  from len have d: "drop 7 (t @ replicate n (CHR ''/'')) = drop 7 t @ replicate n (CHR ''/'')"
    by simp
  have "strip_slashes ((''https://'' @ drop 7 t) @ replicate n (CHR ''/''))
        = strip_slashes (''https://'' @ drop 7 t)"
    by (rule strip_slashes_append_slashes)
  then have e: "strip_slashes (''https://'' @ drop 7 t @ replicate n (CHR ''/''))
        = strip_slashes (''https://'' @ drop 7 t)"
    by simp
  from assms False h have r: "r = strip_slashes (''https://'' @ drop 7 t) @ ''/token''"
    by (simp add: spec_redirect_uri_def)
  show ?thesis
    unfolding spec_redirect_uri_def using nh startswith_append [OF h] d e r by simp
qed

lemma get_oauth_redirect_uri_spec:
  "app cfg = Some a \<Longrightarrow> app_url a = Some raw \<Longrightarrow>
     get_oauth_redirect_uri cfg = spec_redirect_uri (strip raw)"
  by (simp add: get_oauth_redirect_uri_def spec_redirect_uri_def Let_def)

text \<open>
  C4, as the code has it. The configured base URL is first trimmed of the whitespace at
  both ends; on the trimmed URL the redirect URI is built by the rule of the
  specification: a scheme other than https is an error unless it is http, which is
  rewritten to https; all trailing slashes are stripped and \<open>/token\<close> is appended.
  For a base URL that is accepted and does not end in whitespace, appending any number
  of slashes does not change the redirect URI.
\<close>

theorem get_oauth_redirect_uri_trimmed:
  assumes "app cfg = Some a" and "app_url a = Some raw"
  shows "get_oauth_redirect_uri cfg = spec_redirect_uri (strip raw) \<and>
         (\<forall>n r. raw \<noteq> [] \<and> \<not> is_space (last raw) \<and> get_oauth_redirect_uri cfg = Inr r \<longrightarrow>
            get_oauth_redirect_uri
              (cfg\<lparr>app := Some (a\<lparr>app_url := Some (raw @ replicate n (CHR ''/''))\<rparr>)\<rparr>) = Inr r)"
proof (intro conjI allI impI)
  show g: "get_oauth_redirect_uri cfg = spec_redirect_uri (strip raw)"
    using assms by (rule get_oauth_redirect_uri_spec)
  fix n r
  assume h: "raw \<noteq> [] \<and> \<not> is_space (last raw) \<and> get_oauth_redirect_uri cfg = Inr r"
  let ?cfg = "cfg\<lparr>app := Some (a\<lparr>app_url := Some (raw @ replicate n (CHR ''/''))\<rparr>)\<rparr>"
  have "get_oauth_redirect_uri ?cfg = spec_redirect_uri (strip (raw @ replicate n (CHR ''/'')))"
    by (rule get_oauth_redirect_uri_spec [where a = "a\<lparr>app_url := Some (raw @ replicate n (CHR ''/''))\<rparr>"])
       simp_all
  also have "\<dots> = spec_redirect_uri (strip raw @ replicate n (CHR ''/''))"
    using h by (simp add: strip_append_slashes)
  also have "\<dots> = Inr r"
    using h g by (intro spec_redirect_uri_append_slashes) simp
  finally show "get_oauth_redirect_uri ?cfg = Inr r" .
qed

lemma strip_example: "strip ''https://example.com'' = ''https://example.com''"
  by (simp add: strip_def lstrip_def rstrip_def is_space_def)

lemma strip_slashes_example: "strip_slashes ''https://example.com'' = ''https://example.com''"
  by (simp add: strip_slashes_dropWhile)

theorem get_oauth_redirect_uri_trimmed_witness:
  "app (config_with_url ''https://example.com'') = Some (empty_app\<lparr>app_url := Some ''https://example.com''\<rparr>) \<and>
   get_oauth_redirect_uri (config_with_url ''https://example.com'') = Inr ''https://example.com/token'' \<and>
   get_oauth_redirect_uri (config_with_url ''https://example.com///'') = Inr ''https://example.com/token''"
proof -
  let ?a = "empty_app\<lparr>app_url := Some ''https://example.com''\<rparr>"
  have a: "app (config_with_url ''https://example.com'') = Some ?a"
    by (simp add: config_with_url_def)
  have u: "app_url ?a = Some ''https://example.com''" by simp
  note t = get_oauth_redirect_uri_trimmed [OF a u]
  from t have g: "get_oauth_redirect_uri (config_with_url ''https://example.com'')
                  = Inr ''https://example.com/token''"
    by (simp add: strip_example spec_redirect_uri_def startswith_def strip_slashes_example)
  have c: "(config_with_url ''https://example.com'')
             \<lparr>app := Some (?a\<lparr>app_url := Some (''https://example.com'' @ replicate 3 (CHR ''/''))\<rparr>)\<rparr>
           = config_with_url ''https://example.com///''"
    by (simp add: config_with_url_def numeral_3_eq_3)
  from t g have "get_oauth_redirect_uri
           ((config_with_url ''https://example.com'')
             \<lparr>app := Some (?a\<lparr>app_url := Some (''https://example.com'' @ replicate 3 (CHR ''/''))\<rparr>)\<rparr>)
         = Inr ''https://example.com/token''"
    by (simp add: is_space_def)
  with c a g show ?thesis by simp
qed

text \<open>
  The rule without the trimming does not describe the code: for the base URL
  \<open>https://example.com/\<close> followed by a space the code yields
  \<open>https://example.com/token\<close>, while stripping the trailing slashes of the configured
  text and appending \<open>/token\<close> yields a URI with the slash and the space inside.
\<close>

theorem get_oauth_redirect_uri_counterexample:
  "get_oauth_redirect_uri (config_with_url ''https://example.com/ '') = Inr ''https://example.com/token'' \<and>
   spec_redirect_uri ''https://example.com/ '' = Inr ''https://example.com/ /token''"
  by (simp add: get_oauth_redirect_uri_def config_with_url_def spec_redirect_uri_def
      strip_def lstrip_def rstrip_def is_space_def startswith_def strip_slashes_dropWhile)

text \<open>The rewriting of http and the rejection of another scheme, on examples.\<close>

lemma get_oauth_redirect_uri_examples:
  "get_oauth_redirect_uri (config_with_url ''http://example.com/'') = Inr ''https://example.com/token''"
  "get_oauth_redirect_uri (config_with_url ''ftp://example.com'') =
     Inl (ValueError ''Invalid URL: ftp://example.com - must use HTTPS protocol'')"
  by (simp_all add: get_oauth_redirect_uri_def config_with_url_def
      strip_def lstrip_def rstrip_def is_space_def startswith_def strip_slashes_dropWhile)


subsection \<open>The status of a job\<close>

lemma calculate_estimated_time_returns:
  assumes "average \<noteq> 0"
  shows "\<exists>eta. calculate_estimated_time now start_time nb_replies average = Inr eta \<and>
               (eta = None \<longleftrightarrow> nb_replies = None)"
  using assms by (cases nb_replies) (simp_all add: calculate_estimated_time_def Let_def)

text \<open>With \<open>app.project\<close> configured, \<open>error_message\<close> is the lookup in its table.\<close>

lemma error_message_lookup:
  assumes "app cfg = Some a" and "app_project a = Some project"
  shows "error_message cfg reason =
           Inr (case reason of None \<Rightarrow> None
                | Some r \<Rightarrow> map_of (error_message_table project) r)"
  using assms
  by (cases reason) (simp_all add: error_message_def config_app_def error_message_table_def)

text \<open>
  With a nonzero throughput scalar, \<open>status\<close> returns the code 409 for \<open>ongoing\<close>, 200
  for \<open>success\<close> and 404 for \<open>failure\<close> and \<open>notfound\<close>, with a payload of exactly the
  keys \<open>status\<close>, \<open>error_message\<close> (the entry of the table for the failure reason, null
  when the reason is absent or not in the table) and \<open>eta\<close> (null exactly when the number
  of replies is unknown).
\<close>

lemma status_with_nonzero_average:
  assumes "job_status job \<in> {''ongoing'', ''success'', ''failure'', ''notfound''}"
      and "app cfg = Some a" and "app_project a = Some project"
      and "runtime cfg = Some r" and "runtime_average r = Some average" and "average \<noteq> 0"
  shows "\<exists>eta.
           calculate_estimated_time now (job_started_at job) (job_nb_replies job) average = Inr eta \<and>
           (eta = None \<longleftrightarrow> job_nb_replies job = None) \<and>
           status cfg now job =
             Inr (if job_status job = ''ongoing'' then 409
                  else if job_status job = ''success'' then 200 else 404,
                  [(''status'', JString (job_status job)),
                   (''error_message'',
                    json_of (case job_failure_reason job of None \<Rightarrow> None
                             | Some reason \<Rightarrow> map_of (error_message_table project) reason)),
                   (''eta'', json_of eta)])"
proof -
  note m = error_message_lookup [OF assms(2,3), of "job_failure_reason job"]
  from calculate_estimated_time_returns [OF assms(6)] obtain eta where
    e: "calculate_estimated_time now (job_started_at job) (job_nb_replies job) average = Inr eta"
       "eta = None \<longleftrightarrow> job_nb_replies job = None"
    by blast
  have a: "config_average cfg = Inr average"
    using assms(4,5) by (simp add: config_average_def)
  have "status cfg now job =
          Inr (if job_status job = ''ongoing'' then 409
               else if job_status job = ''success'' then 200 else 404,
               [(''status'', JString (job_status job)),
                (''error_message'',
                 json_of (case job_failure_reason job of None \<Rightarrow> None
                          | Some reason \<Rightarrow> map_of (error_message_table project) reason)),
                (''eta'', json_of eta)])"
    using assms(1) by (auto simp: status_def m e(1) a Let_def)
  with e show ?thesis by (intro exI [of _ eta] conjI)
qed

text \<open>An ongoing job and a failed job under the example configuration.\<close>

lemma status_examples:
  "status example_config 1010 example_job =
     Inr (409, [(''status'', JString ''ongoing''), (''error_message'', JNull),
                (''eta'', JString ''It seems that the retrieval is taking a bit more time than expected. Please stand by...'')])"
  "status example_config 1010 example_failed_job =
     Inr (404, [(''status'', JString ''failure''),
                (''error_message'', JString ''The submission could not be found. Please check if the submission (still) exists.''),
                (''eta'', JNull)])"
  by (simp_all add: status_def error_message_def config_average_def example_config_def
      example_job_def example_failed_job_def calculate_estimated_time_def int_of_float_def
      ceiling_less_iff json_of_def)

text \<open>
  C5. The specification has \<open>status\<close> return a code and a payload for every job whose
  status is one of the four values. After a recalibration with a datastore average of
  0.75 the throughput scalar is 0, and for a finished job with 120 replies \<open>status\<close>
  raises \<open>ZeroDivisionError\<close> where the code 200 and the payload are expected.
\<close>

theorem status_raises_on_zero_average:
  "job_status example_finished_job = ''success'' \<and>
   job_nb_replies example_finished_job = Some 120 \<and>
   calculate_average_eta (Some (3/4)) example_config = Inr example_zero_config \<and>
   status example_zero_config 2000 example_finished_job = Inl ZeroDivisionError"
  by (simp add: example_finished_job_def example_zero_config_def example_config_def
      calculate_average_eta_def int_of_float_def floor_eq_iff status_def error_message_def
      config_average_def calculate_estimated_time_def)

text \<open>A status outside the four values makes \<open>status\<close> raise.\<close>

lemma status_other_value:
  "job_status job \<notin> {''ongoing'', ''success'', ''failure'', ''notfound''} \<Longrightarrow>
     \<exists>e. status cfg now job = Inl e"
  by (auto simp: status_def Let_def split: sum.splits)


subsection \<open>The retention sweep\<close>

lemma map_of_middle:
  "f \<notin> fst ` set kept \<Longrightarrow> map_of (kept @ (f, e) # rest) f = Some e"
  by (simp add: map_add_def map_of_eq_None_iff [THEN iffD2])

lemma filter_middle:
  assumes "f \<notin> fst ` set kept" and "f \<notin> fst ` set rest"
  shows "filter (\<lambda>p. fst p \<noteq> f) (kept @ (f, e) # rest) = kept @ rest"
proof -
  from assms(1) have "filter (\<lambda>p. fst p \<noteq> f) kept = kept"
    by (intro filter_True) auto
  moreover from assms(2) have "filter (\<lambda>p. fst p \<noteq> f) rest = rest"
    by (intro filter_True) auto
  ultimately show ?thesis by simp
qed

lemma cleanup_loop_step:
  assumes "f \<notin> fst ` set kept" and "f \<notin> fst ` set rest"
  shows "cleanup_loop now (f # names) (kept @ (f, e) # rest) =
           (if 86400 < now - file_mtime e then
              (if file_removable e then cleanup_loop now names (kept @ rest)
               else (Inl (OSError f), kept @ (f, e) # rest))
            else cleanup_loop now names (kept @ (f, e) # rest))"
  using map_of_middle [OF assms(1), of e rest] filter_middle [OF assms, of e]
  by (simp add: getmtime_def remove_file_def)

lemma cleanup_loop_all_removable:
  assumes "distinct (map fst (kept @ rest))"
      and "\<forall>(f, e) \<in> set rest. 86400 < now - file_mtime e \<longrightarrow> file_removable e"
  shows "cleanup_loop now (map fst rest) (kept @ rest) =
           (Inr (), kept @ filter (\<lambda>(f, e). \<not> 86400 < now - file_mtime e) rest)"
  using assms
proof (induction rest arbitrary: kept)
  case Nil
  then show ?case by simp
next
  case (Cons p rest)
  obtain f e where p: "p = (f, e)" by (cases p)
  from Cons.prems(1) p have nk: "f \<notin> fst ` set kept" and nr: "f \<notin> fst ` set rest"
    by auto
  show ?case
  proof (cases "86400 < now - file_mtime e")
    case True
    with Cons.prems(2) p have rm: "file_removable e" by simp
    from Cons.prems(1) p have d: "distinct (map fst (kept @ rest))" by simp
    from Cons.prems(2) have a: "\<forall>(f, e) \<in> set rest. 86400 < now - file_mtime e \<longrightarrow> file_removable e"
      by simp
    from Cons.IH [OF d a] True rm show ?thesis
      by (simp add: p cleanup_loop_step [OF nk nr] del: cleanup_loop.simps)
  next
    case False
    from Cons.prems(1) p have d: "distinct (map fst ((kept @ [(f, e)]) @ rest))" by simp
    from Cons.prems(2) have a: "\<forall>(f, e) \<in> set rest. 86400 < now - file_mtime e \<longrightarrow> file_removable e"
      by simp
    from Cons.IH [OF d a] False show ?thesis
      by (simp add: p cleanup_loop_step [OF nk nr] del: cleanup_loop.simps)
  qed
qed

lemma cleanup_loop_failure:
  assumes "distinct (map fst (kept @ pre @ (f, e) # post))"
      and "\<forall>(g, d) \<in> set pre. 86400 < now - file_mtime d \<longrightarrow> file_removable d"
      and "86400 < now - file_mtime e" and "\<not> file_removable e"
  shows "cleanup_loop now (map fst (pre @ (f, e) # post)) (kept @ pre @ (f, e) # post) =
           (Inl (OSError f),
            kept @ filter (\<lambda>(g, d). \<not> 86400 < now - file_mtime d) pre @ (f, e) # post)"
  using assms(1,2)
proof (induction pre arbitrary: kept)
  case Nil
  then have nk: "f \<notin> fst ` set kept" and nr: "f \<notin> fst ` set post" by auto
  from assms(3,4) show ?case
    by (simp add: cleanup_loop_step [OF nk nr] del: cleanup_loop.simps)
next
  case (Cons p pre)
  obtain g d where p: "p = (g, d)" by (cases p)
  from Cons.prems(1) p have nk: "g \<notin> fst ` set kept"
    and nr: "g \<notin> fst ` set (pre @ (f, e) # post)"
    by auto
  from Cons.prems(2) have a: "\<forall>(g, d) \<in> set pre. 86400 < now - file_mtime d \<longrightarrow> file_removable d"
    by simp
  show ?case
  proof (cases "86400 < now - file_mtime d")
    case True
    with Cons.prems(2) p have rm: "file_removable d" by simp
    from Cons.prems(1) p have dd: "distinct (map fst (kept @ pre @ (f, e) # post))" by simp
    from Cons.IH [OF dd a] True rm show ?thesis
      by (simp add: p cleanup_loop_step [OF nk nr] del: cleanup_loop.simps)
  next
    case False
    from Cons.prems(1) p have dd: "distinct (map fst ((kept @ [(g, d)]) @ pre @ (f, e) # post))"
      by simp
    from Cons.IH [OF dd a] False show ?thesis
      by (simp add: p cleanup_loop_step [OF nk nr] del: cleanup_loop.simps)
  qed
qed

text \<open>
  C8. When every deletion that the sweep attempts succeeds, the sweep ends without an
  error and the directory holds afterwards exactly the files whose age \<open>now - mtime\<close> is
  not above 86400 seconds: a file is deleted exactly when its age exceeds 86400.
\<close>

theorem cleanup_downloads_threshold:
  assumes "distinct (map fst fs)"
      and "\<forall>(f, e) \<in> set fs. 86400 < now - file_mtime e \<longrightarrow> file_removable e"
  shows "cleanup_downloads now fs =
           (Inr (), filter (\<lambda>(f, e). \<not> 86400 < now - file_mtime e) fs)"
  using cleanup_loop_all_removable [of "[]" fs now] assms
  by (simp add: cleanup_downloads_def listdir_def)

theorem cleanup_downloads_threshold_witness:
  "distinct (map fst example_dir) \<and>
   100000 - file_mtime \<lparr>file_mtime = 13599, file_removable = True\<rparr> = 86401 \<and>
   100000 - file_mtime \<lparr>file_mtime = 13601, file_removable = True\<rparr> = 86399 \<and>
   cleanup_downloads 100000 example_dir =
     (Inr (), [(''b.html'', \<lparr>file_mtime = 13601, file_removable = True\<rparr>),
               (''c.html'', \<lparr>file_mtime = 13600, file_removable = True\<rparr>)])"
proof -
  have d: "distinct (map fst example_dir)" by (simp add: example_dir_def)
  have r: "\<forall>(f, e) \<in> set example_dir. 86400 < 100000 - file_mtime e \<longrightarrow> file_removable e"
    by (simp add: example_dir_def)
  from cleanup_downloads_threshold [OF d r] d show ?thesis
    by (simp add: example_dir_def)
qed

text \<open>
  C7, as the code has it. When the deletion of a file fails, the sweep ends at that file
  with the error: the files listed before it have been treated (those older than 86400
  seconds are deleted), the failing file and all files listed after it stay as they are.
\<close>

theorem cleanup_downloads_stops_at_failure:
  assumes "distinct (map fst (pre @ (f, e) # post))"
      and "\<forall>(g, d) \<in> set pre. 86400 < now - file_mtime d \<longrightarrow> file_removable d"
      and "86400 < now - file_mtime e" and "\<not> file_removable e"
  shows "cleanup_downloads now (pre @ (f, e) # post) =
           (Inl (OSError f),
            filter (\<lambda>(g, d). \<not> 86400 < now - file_mtime d) pre @ (f, e) # post)"
  using cleanup_loop_failure [of "[]" pre f e post now] assms
  by (simp add: cleanup_downloads_def listdir_def)

theorem cleanup_downloads_stops_at_failure_witness:
  "example_failing_dir =
     [(''c.html'', \<lparr>file_mtime = 10, file_removable = True\<rparr>)] @
     (''a.html'', \<lparr>file_mtime = 0, file_removable = False\<rparr>) #
     [(''b.html'', \<lparr>file_mtime = 0, file_removable = True\<rparr>)] \<and>
   cleanup_downloads 100000 example_failing_dir =
     (Inl (OSError ''a.html''),
      [(''a.html'', \<lparr>file_mtime = 0, file_removable = False\<rparr>),
       (''b.html'', \<lparr>file_mtime = 0, file_removable = True\<rparr>)])"
proof -
  let ?pre = "[(''c.html'', \<lparr>file_mtime = 10, file_removable = True\<rparr>)]"
  let ?e = "\<lparr>file_mtime = 0, file_removable = False\<rparr>"
  let ?post = "[(''b.html'', \<lparr>file_mtime = 0, file_removable = True\<rparr>)]"
  have d: "distinct (map fst (?pre @ (''a.html'', ?e) # ?post))" by simp
  have r: "\<forall>(g, d) \<in> set ?pre. 86400 < 100000 - file_mtime d \<longrightarrow> file_removable d" by simp
  have o: "86400 < 100000 - file_mtime ?e" by simp
  have n: "\<not> file_removable ?e" by simp
  from cleanup_downloads_stops_at_failure [OF d r o n] show ?thesis
    by (simp add: example_failing_dir_def)
qed

text \<open>
  The specification lets the sweep go on after a failed deletion. In the second example
  directory \<open>b.html\<close> is older than a day and removable, it is listed after \<open>a.html\<close>,
  whose deletion fails, and it is still there after the sweep, which ended with the error.
\<close>

theorem cleanup_downloads_counterexample:
  "map_of example_failing_dir ''b.html'' = Some \<lparr>file_mtime = 0, file_removable = True\<rparr> \<and>
   86400 < (100000 - 0 :: rat) \<and>
   map_of (snd (cleanup_downloads 100000 example_failing_dir)) ''b.html'' =
     Some \<lparr>file_mtime = 0, file_removable = True\<rparr> \<and>
   fst (cleanup_downloads 100000 example_failing_dir) = Inl (OSError ''a.html'')"
  by (simp add: example_failing_dir_def cleanup_downloads_def listdir_def getmtime_def
      remove_file_def)

end
